theory Spec2Isabelle
  imports Main "HOL-Library.Word" "HOL-Library.Sublist"
begin

section \<open>Byte slices of package wol\<close>

text \<open>
  A Go \<open>[]byte\<close> is modelled as a list of 8-bit words. A run-time panic (slice bounds
  out of range) is the value \<open>None\<close>; every slice expression of the source goes through
  \<open>slice\<close> or \<open>slice_from\<close>, so that a panic of the source is a branch of the model.
  Go checks the upper bound of a slice expression against the capacity; the model checks
  it against the length, which is never larger, so a model that does not panic describes
  a program that does not panic.
\<close>

type_synonym byte = "8 word"

type_synonym bytes = "byte list"

text \<open>\<open>b[lo:hi]\<close>\<close>

definition slice :: "nat \<Rightarrow> nat \<Rightarrow> bytes \<Rightarrow> bytes option" where
  "slice lo hi b = (if lo \<le> hi \<and> hi \<le> length b then Some (take (hi - lo) (drop lo b)) else None)"

text \<open>\<open>b[lo:]\<close>\<close>

definition slice_from :: "nat \<Rightarrow> bytes \<Rightarrow> bytes option" where
  "slice_from lo b = (if lo \<le> length b then Some (drop lo b) else None)"

text \<open>\<open>make([]byte, n)\<close>: n zero bytes.\<close>

definition make_bytes :: "nat \<Rightarrow> bytes" where
  "make_bytes n = replicate n 0"

text \<open>
  The builtin \<open>copy(dst, src)\<close>: the first \<open>min (len dst) (len src)\<close> bytes of \<open>dst\<close>
  are overwritten, the rest of \<open>dst\<close> stays. The model returns the updated \<open>dst\<close>.
\<close>

definition copy :: "bytes \<Rightarrow> bytes \<Rightarrow> bytes" where
  "copy dst src = take (length dst) src @ drop (length src) dst"

text \<open>
  \<open>copy(p[off:], src)\<close>: the destination is a view into \<open>p\<close> from \<open>off\<close>, so the
  bytes of \<open>p\<close> before \<open>off\<close> stay and the copy lands behind them. \<open>None\<close> when
  \<open>p[off:]\<close> panics.
\<close>

definition copy_at :: "nat \<Rightarrow> bytes \<Rightarrow> bytes \<Rightarrow> bytes option" where
  "copy_at off p src =
     (case slice_from off p of
        None \<Rightarrow> None
      | Some dst \<Rightarrow> Some (take off p @ copy dst src))"

text \<open>\<open>bytes.Repeat(b, count)\<close> for a count that is not negative.\<close>

definition Repeat :: "bytes \<Rightarrow> nat \<Rightarrow> bytes" where
  "Repeat b count = concat (replicate count b)"

section \<open>The magic packet codec\<close>

definition hwAddrN :: nat where
  "hwAddrN = 16"

definition bcastAddr :: bytes where
  "bcastAddr = [255, 255, 255, 255, 255, 255]"

definition bcastAddrOff :: nat where
  "bcastAddrOff = length bcastAddr"

text \<open>\<open>func (p MagicPacket) HardwareAddr()\<close>: \<open>p[bcastAddrOff : bcastAddrOff*2]\<close>.\<close>

definition HardwareAddr :: "bytes \<Rightarrow> bytes option" where
  "HardwareAddr p = slice bcastAddrOff (bcastAddrOff * 2) p"

text \<open>
  \<open>NewMagicPacket\<close>: allocate, copy the broadcast prefix, copy the repeated address
  behind it. \<open>None\<close> would be a panic of \<open>p[bcastAddrOff:]\<close>.
\<close>

definition NewMagicPacket :: "bytes \<Rightarrow> bytes option" where
  "NewMagicPacket hwAddr =
     (let p = make_bytes (bcastAddrOff + hwAddrN * length hwAddr);
          p = copy p bcastAddr
      in copy_at bcastAddrOff p (Repeat hwAddr hwAddrN))"

text \<open>
  \<open>IsMagicPacket\<close>, check by check in the order of the source: the length, the prefix
  \<open>b[:6]\<close>, then the repeated address.
\<close>

definition IsMagicPacket :: "bytes \<Rightarrow> bool option" where
  "IsMagicPacket b =
     (if length b \<noteq> 102 then Some False
      else case slice 0 6 b of
        None \<Rightarrow> None
      | Some pre \<Rightarrow>
          if pre \<noteq> bcastAddr then Some False
          else case HardwareAddr b of
            None \<Rightarrow> None
          | Some hwAddr \<Rightarrow>
              (case slice_from bcastAddrOff b of
                 None \<Rightarrow> None
               | Some rest \<Rightarrow> Some (rest = Repeat hwAddr hwAddrN)))"

section \<open>The transport\<close>

text \<open>
  Go's \<open>error\<close> values that \<open>Wake\<close> and \<open>WakeString\<close> can return: \<open>io.ErrShortWrite\<close>,
  the value built by \<open>fmt.Errorf\<close> (it carries the formatted message), and an error
  handed over by package \<open>net\<close> (dial, write, close, \<open>ParseMAC\<close>), of which only the
  message is kept. A Go \<open>nil\<close> error is \<open>None\<close> of \<open>error option\<close>.
\<close>

datatype error = ErrShortWrite | Errorf string | NetError string

text \<open>The method \<open>Error()\<close>: the message of an error.\<close>

fun Error :: "error \<Rightarrow> string" where
  "Error ErrShortWrite = ''short write''"
| "Error (Errorf msg) = msg"
| "Error (NetError msg) = msg"

text \<open>
  \<open>net.UDPAddr\<close>. \<open>IP\<close> is a byte slice that may be \<open>nil\<close>; fields that a composite
  literal leaves out have their zero value.
\<close>

record UDPAddr =
  IP :: "bytes option"
  Port :: int
  Zone :: string

text \<open>
  \<open>net.IPv4bcast\<close> is \<open>net.IPv4(255, 255, 255, 255)\<close>, the 16-byte form of the IPv4
  address: the prefix of an IPv4-mapped address followed by the four octets.
\<close>

definition v4InV6Prefix :: bytes where
  "v4InV6Prefix = [0, 0, 0, 0, 0, 0, 0, 0, 0, 0, 255, 255]"

definition IPv4 :: "byte \<Rightarrow> byte \<Rightarrow> byte \<Rightarrow> byte \<Rightarrow> bytes" where
  "IPv4 a b c d = v4InV6Prefix @ [a, b, c, d]"

definition IPv4bcast :: bytes where
  "IPv4bcast = IPv4 255 255 255 255"

text \<open>
  The network is outside the program. What it answers is a parameter of the model: for
  the dial an error or none, for the write the count and an error or none, for the close
  an error or none. What the program asks of it is recorded, call by call, in a trace.
\<close>

record network =
  dialUDP :: "UDPAddr option \<Rightarrow> UDPAddr \<Rightarrow> error option"
  connWrite :: "bytes \<Rightarrow> int \<times> error option"
  connClose :: "error option"

datatype event =
    EvDial "UDPAddr option" UDPAddr
  | EvWrite bytes
  | EvClose

text \<open>A call either returns its (possibly nil) error or panics.\<close>

datatype outcome = Panicked | Returned "error option"

text \<open>
  \<open>Wake\<close>, statement by statement. The local address is \<open>nil\<close> unless a source is
  given; the write's result is \<open>(n, err)\<close>; the short-write return comes before the
  close; the close's error, when there is one, is assigned to \<open>err\<close>.
\<close>

definition Wake :: "network \<Rightarrow> bytes option \<Rightarrow> bytes \<Rightarrow> event list \<times> outcome" where
  "Wake net src hwAddr =
     (let laddr = (case src of
                     None \<Rightarrow> None
                   | Some ip \<Rightarrow> Some \<lparr>IP = Some ip, Port = 0, Zone = []\<rparr>);
          raddr = \<lparr>IP = Some IPv4bcast, Port = 9, Zone = []\<rparr>;
          t0 = [EvDial laddr raddr]
      in case dialUDP net laddr raddr of
           Some err \<Rightarrow> (t0, Returned (Some err))
         | None \<Rightarrow>
             (case NewMagicPacket hwAddr of
                None \<Rightarrow> (t0, Panicked)
              | Some p \<Rightarrow>
                  (let (n, err) = connWrite net p;
                       t1 = t0 @ [EvWrite p]
                   in if err = None \<and> n < int (length p)
                      then (t1, Returned (Some ErrShortWrite))
                      else (case connClose net of
                              Some err1 \<Rightarrow> (t1 @ [EvClose], Returned (Some err1))
                            | None \<Rightarrow> (t1 @ [EvClose], Returned err)))))"

text \<open>
  \<open>WakeString\<close>. \<open>net.ParseMAC\<close> and \<open>net.ParseIP\<close> belong to Go's standard library and
  are parameters: \<open>ParseMAC\<close> returns an error or the address, \<open>ParseIP\<close> returns
  \<open>nil\<close> (\<open>None\<close>) or the address. Neither touches the network.
\<close>

definition WakeString ::
  "(string \<Rightarrow> error + bytes) \<Rightarrow> (string \<Rightarrow> bytes option) \<Rightarrow> network \<Rightarrow> string \<Rightarrow> string
     \<Rightarrow> event list \<times> outcome" where
  "WakeString ParseMAC ParseIP net srcIP macAddr =
     (case ParseMAC macAddr of
        Inl err \<Rightarrow> ([], Returned (Some err))
      | Inr hwAddr \<Rightarrow>
          (if srcIP \<noteq> []
           then (case ParseIP srcIP of
                   None \<Rightarrow> ([], Returned (Some (Errorf (''invalid ip: '' @ srcIP))))
                 | Some src \<Rightarrow> Wake net (Some src) hwAddr)
           else Wake net None hwAddr))"

section \<open>Concrete inputs\<close>

text \<open>The hardware address AA:BB:CC:DD:EE:FF.\<close>

definition mac_aabb :: bytes where
  "mac_aabb = [0xAA, 0xBB, 0xCC, 0xDD, 0xEE, 0xFF]"

text \<open>Its magic packet, written out from the wire format.\<close>

definition packet_aabb :: bytes where
  "packet_aabb = replicate 6 0xFF @ concat (replicate 16 [0xAA, 0xBB, 0xCC, 0xDD, 0xEE, 0xFF])"

text \<open>A network on which everything succeeds and the write takes the whole packet.\<close>

definition net_ok :: network where
  "net_ok = \<lparr>dialUDP = (\<lambda>laddr raddr. None),
             connWrite = (\<lambda>p. (int (length p), None)),
             connClose = None\<rparr>"

text \<open>A network whose write takes 50 bytes and reports no error.\<close>

definition net_short :: network where
  "net_short = \<lparr>dialUDP = (\<lambda>laddr raddr. None),
                connWrite = (\<lambda>p. (50, None)),
                connClose = None\<rparr>"

text \<open>A network whose write fails and whose close fails too, with a different error.\<close>

definition net_write_close_fail :: network where
  "net_write_close_fail =
     \<lparr>dialUDP = (\<lambda>laddr raddr. None),
      connWrite = (\<lambda>p. (0, Some (NetError ''write: network is unreachable''))),
      connClose = Some (NetError ''close: bad file descriptor'')\<rparr>"

text \<open>
  Stand-ins for the two parsers, enough to run \<open>WakeString\<close>: the first accepts one
  address text and rejects every other with a message built as \<open>net.ParseMAC\<close> builds
  it, the second accepts one address text.
\<close>

definition parse_mac_demo :: "string \<Rightarrow> error + bytes" where
  "parse_mac_demo s =
     (if s = ''aa:bb:cc:dd:ee:ff'' then Inr mac_aabb
      else Inl (NetError (''address '' @ s @ '': invalid MAC address'')))"

definition parse_ip_demo :: "string \<Rightarrow> bytes option" where
  "parse_ip_demo s = (if s = ''10.0.0.1'' then Some (IPv4 10 0 0 1) else None)"

section \<open>Properties of the codec\<close>

lemma bcastAddrOff_6: "bcastAddrOff = 6"
  by (simp add: bcastAddrOff_def bcastAddr_def)

lemma length_Repeat: "length (Repeat b n) = n * length b"
  by (induction n) (simp_all add: Repeat_def)

lemma length_make: "length (make_bytes n) = n"
  by (simp add: make_bytes_def)

lemma copy_prefix: "length src \<le> n \<Longrightarrow> copy (make_bytes n) src = src @ make_bytes (n - length src)"
  by (simp add: copy_def make_bytes_def)

lemma copy_whole: "length dst = length src \<Longrightarrow> copy dst src = src"
  by (simp add: copy_def)

lemma NewMagicPacket_eq: "NewMagicPacket h = Some (bcastAddr @ Repeat h hwAddrN)"
proof -
  have six: "length bcastAddr = 6"
    by (simp add: bcastAddr_def)
  let ?n = "hwAddrN * length h"
  have p: "copy (make_bytes (6 + ?n)) bcastAddr = bcastAddr @ make_bytes ?n"
    using copy_prefix [of bcastAddr "6 + ?n"] by (simp add: six)
  have "copy_at 6 (bcastAddr @ make_bytes ?n) (Repeat h hwAddrN) = Some (bcastAddr @ Repeat h hwAddrN)"
    by (simp add: copy_at_def slice_from_def six copy_whole length_make length_Repeat)
  with p show ?thesis
    by (simp add: NewMagicPacket_def bcastAddrOff_6 Let_def)
qed

lemma IsMagicPacket_eq:
  "IsMagicPacket b =
     Some (length b = 102 \<and> take 6 b = bcastAddr \<and> drop 6 b = Repeat (take 6 (drop 6 b)) hwAddrN)"
  by (simp add: IsMagicPacket_def HardwareAddr_def slice_def slice_from_def bcastAddrOff_6)

lemma Repeat_6_16: "length h = 6 \<Longrightarrow> take 6 (Repeat h hwAddrN) = h"
  by (simp add: Repeat_def hwAddrN_def eval_nat_numeral)

lemma length_Repeat_6: "length h = 6 \<Longrightarrow> length (Repeat h hwAddrN) = 96"
  by (simp add: length_Repeat hwAddrN_def)

lemma length_mac_aabb: "length mac_aabb = 6"
  by (simp add: mac_aabb_def)

lemma Repeat_nth:
  "0 < length h \<Longrightarrow> j < n * length h \<Longrightarrow> Repeat h n ! j = h ! (j mod length h)"
proof (induction n arbitrary: j)
  case 0
  then show ?case by simp
next
  case (Suc n)
  have unfold: "Repeat h (Suc n) = h @ Repeat h n"
    by (simp add: Repeat_def)
  show ?case
  proof (cases "j < length h")
    case True
    then show ?thesis by (simp add: unfold nth_append)
  next
    case False
    then have "j - length h < n * length h"
      using Suc.prems by simp
    then have "Repeat h n ! (j - length h) = h ! ((j - length h) mod length h)"
      using Suc.IH Suc.prems(1) by blast
    moreover have "(j - length h) mod length h = j mod length h"
      using False by (simp add: le_mod_geq)
    ultimately show ?thesis
      using False by (simp add: unfold nth_append)
  qed
qed

lemma magic_period:
  assumes ok: "IsMagicPacket b = Some True" and lo: "6 \<le> j" and hi: "j < 96"
  shows "b ! j = b ! (j + 6)"
proof -
  let ?h = "take 6 (drop 6 b)"
  from ok have len: "length b = 102" and rep: "drop 6 b = Repeat ?h hwAddrN"
    by (simp_all add: IsMagicPacket_eq)
  have lh: "length ?h = 6"
    using len by simp
  have at: "b ! (6 + k) = ?h ! (k mod 6)" if "k < 96" for k
  proof -
    have "b ! (6 + k) = drop 6 b ! k"
      using len that by simp
    also have "\<dots> = Repeat ?h hwAddrN ! k"
      using rep by simp
    also have "\<dots> = ?h ! (k mod length ?h)"
      by (rule Repeat_nth) (use lh that in \<open>simp_all add: hwAddrN_def\<close>)
    finally show ?thesis
      by (simp only: lh)
  qed
  have "b ! (6 + (j - 6)) = ?h ! ((j - 6) mod 6)"
    by (rule at) (use hi in simp)
  moreover have "b ! (6 + j) = ?h ! (j mod 6)"
    by (rule at) (use hi in simp)
  moreover have "(j - 6) mod 6 = j mod 6"
    using lo by (simp add: le_mod_geq)
  ultimately show ?thesis
    using lo by (simp add: add.commute)
qed

lemma magic_flip:
  assumes ok: "IsMagicPacket b = Some True" and lo: "6 \<le> i" and hi: "i < 102"
    and flip: "v \<noteq> b ! i"
  shows "IsMagicPacket (b[i := v]) = Some False"
proof (rule ccontr)
  assume "IsMagicPacket (b[i := v]) \<noteq> Some False"
  then have ok': "IsMagicPacket (b[i := v]) = Some True"
    by (simp add: IsMagicPacket_eq)
  from ok have len: "length b = 102"
    by (simp add: IsMagicPacket_eq)
  show False
  proof (cases "i < 96")
    case True
    have "b[i := v] ! i = b[i := v] ! (i + 6)"
      by (rule magic_period [OF ok' lo True])
    moreover have "b ! i = b ! (i + 6)"
      by (rule magic_period [OF ok lo True])
    ultimately show False
      using flip len True by simp
  next
    case False
    then have j: "6 \<le> i - 6" "i - 6 < 96" "i - 6 + 6 = i"
      using hi by simp_all
    have "b[i := v] ! (i - 6) = b[i := v] ! (i - 6 + 6)"
      by (rule magic_period [OF ok' j(1) j(2)])
    moreover have "b ! (i - 6) = b ! (i - 6 + 6)"
      by (rule magic_period [OF ok j(1) j(2)])
    ultimately show False
      using flip len hi False by (simp add: j(3))
  qed
qed

lemma bcastAddr_replicate: "bcastAddr = replicate 6 255"
  by (simp add: bcastAddr_def eval_nat_numeral)

lemma NewMagicPacket_aabb: "NewMagicPacket mac_aabb = Some packet_aabb"
  by (simp add: NewMagicPacket_eq packet_aabb_def mac_aabb_def bcastAddr_replicate Repeat_def
      hwAddrN_def)

lemma length_packet_aabb: "length packet_aabb = 102"
  by (simp add: packet_aabb_def eval_nat_numeral)

lemma IsMagicPacket_New:
  assumes "length h = 6"
  shows "IsMagicPacket (bcastAddr @ Repeat h hwAddrN) = Some True"
proof -
  have "length bcastAddr = 6"
    by (simp add: bcastAddr_def)
  then show ?thesis
    using assms by (simp add: IsMagicPacket_eq length_Repeat_6 Repeat_6_16)
qed

lemma IsMagicPacket_aabb: "IsMagicPacket packet_aabb = Some True"
proof -
  have "packet_aabb = bcastAddr @ Repeat mac_aabb hwAddrN"
    by (simp add: packet_aabb_def bcastAddr_replicate Repeat_def hwAddrN_def mac_aabb_def)
  then show ?thesis
    using IsMagicPacket_New [OF length_mac_aabb] by simp
qed

lemma IsMagicPacket_decompose:
  assumes "IsMagicPacket b = Some True"
  shows "length b = 102" and "b = bcastAddr @ Repeat (take 6 (drop 6 b)) hwAddrN"
proof -
  from assms show len: "length b = 102"
    by (simp add: IsMagicPacket_eq)
  from assms have "take 6 b = bcastAddr" and "drop 6 b = Repeat (take 6 (drop 6 b)) hwAddrN"
    by (simp_all add: IsMagicPacket_eq)
  then have "take 6 b @ drop 6 b = bcastAddr @ Repeat (take 6 (drop 6 b)) hwAddrN"
    by simp
  then show "b = bcastAddr @ Repeat (take 6 (drop 6 b)) hwAddrN"
    by simp
qed

subsection \<open>Round trip\<close>

text \<open>
  C1. For every 6-byte hardware address \<open>h\<close>, the packet built by \<open>NewMagicPacket h\<close>
  is accepted by \<open>IsMagicPacket\<close>, and \<open>HardwareAddr\<close> of that packet is \<open>h\<close> again;
  none of the three calls panics.
\<close>

theorem encode_roundtrip:
  assumes "length h = 6"
  shows "Option.bind (NewMagicPacket h) IsMagicPacket = Some True
       \<and> Option.bind (NewMagicPacket h) HardwareAddr = Some h"
proof -
  have "length bcastAddr = 6"
    by (simp add: bcastAddr_def)
  then have "HardwareAddr (bcastAddr @ Repeat h hwAddrN) = Some h"
    using assms
    by (simp add: HardwareAddr_def slice_def bcastAddrOff_6 length_Repeat_6 Repeat_6_16)
  then show ?thesis
    using assms by (simp add: NewMagicPacket_eq IsMagicPacket_New)
qed

theorem encode_roundtrip_witness:
  "length mac_aabb = 6
   \<and> Option.bind (NewMagicPacket mac_aabb) IsMagicPacket = Some True
   \<and> Option.bind (NewMagicPacket mac_aabb) HardwareAddr = Some mac_aabb"
  using encode_roundtrip [OF length_mac_aabb] length_mac_aabb by simp

subsection \<open>Layout of the encoded packet\<close>

text \<open>
  C2. For every 6-byte hardware address \<open>h\<close>, \<open>NewMagicPacket h\<close> is exactly 102 bytes
  long, its bytes [0,6) are FF FF FF FF FF FF and its bytes [6,102) are \<open>h\<close> repeated
  16 times. For AA:BB:CC:DD:EE:FF this is the prefix followed by AA BB CC DD EE FF
  sixteen times.
\<close>

theorem encode_layout:
  assumes "length h = 6"
  shows "map_option length (NewMagicPacket h) = Some 102
       \<and> Option.bind (NewMagicPacket h) (slice 0 6) = Some [255, 255, 255, 255, 255, 255]
       \<and> Option.bind (NewMagicPacket h) (slice 6 102) = Some (concat (replicate 16 h))
       \<and> NewMagicPacket h = Some ([255, 255, 255, 255, 255, 255] @ concat (replicate 16 h))"
proof -
  have six: "length bcastAddr = 6"
    by (simp add: bcastAddr_def)
  have len: "length (Repeat h hwAddrN) = 96"
    using assms by (rule length_Repeat_6)
  have "slice 0 6 (bcastAddr @ Repeat h hwAddrN) = Some bcastAddr"
    by (simp add: slice_def six)
  moreover have "slice 6 102 (bcastAddr @ Repeat h hwAddrN) = Some (Repeat h hwAddrN)"
    by (simp add: slice_def six len)
  ultimately show ?thesis
    by (simp add: NewMagicPacket_eq six len) (simp add: bcastAddr_def Repeat_def hwAddrN_def)
qed

theorem encode_layout_witness:
  "length mac_aabb = 6
   \<and> map_option length (NewMagicPacket mac_aabb) = Some 102
   \<and> Option.bind (NewMagicPacket mac_aabb) (slice 0 6) = Some [255, 255, 255, 255, 255, 255]
   \<and> Option.bind (NewMagicPacket mac_aabb) (slice 6 102) = Some (concat (replicate 16 mac_aabb))
   \<and> NewMagicPacket mac_aabb = Some packet_aabb"
  using encode_layout [OF length_mac_aabb] NewMagicPacket_aabb length_mac_aabb by simp

subsection \<open>The length gate\<close>

text \<open>
  C6. \<open>IsMagicPacket\<close> never panics, whatever the length of its input (no slice
  expression is reached with a bound out of range), and it answers false for every byte
  sequence whose length is not 102, the empty one included.
\<close>

theorem length_gate:
  "IsMagicPacket b \<noteq> None \<and> (length b \<noteq> 102 \<longrightarrow> IsMagicPacket b = Some False)"
  by (simp add: IsMagicPacket_eq)

theorem length_gate_witness:
  "IsMagicPacket [] \<noteq> None \<and> length ([] :: bytes) \<noteq> 102 \<and> IsMagicPacket [] = Some False"
  using length_gate [of "[]"] by simp

subsection \<open>Strict structural validation\<close>

text \<open>
  C7. A 102-byte sequence is accepted by \<open>IsMagicPacket\<close> if and only if its bytes
  [0,6) are FF FF FF FF FF FF and its bytes [6,102) are its bytes [6,12) repeated 16
  times. So 102 zero bytes are rejected, and an accepted packet in which one byte at a
  position in [6,102) is replaced by a different value is rejected.
\<close>

theorem strict_validation:
  "(length b = 102 \<longrightarrow>
      IsMagicPacket b =
        Some (take 6 b = [255, 255, 255, 255, 255, 255]
              \<and> drop 6 b = concat (replicate 16 (take 6 (drop 6 b)))))
   \<and> IsMagicPacket (replicate 102 0) = Some False
   \<and> (IsMagicPacket b = Some True \<and> 6 \<le> i \<and> i < 102 \<and> v \<noteq> b ! i \<longrightarrow>
        IsMagicPacket (b[i := v]) = Some False)"
proof (intro conjI impI)
  assume "length b = 102"
  then show "IsMagicPacket b =
        Some (take 6 b = [255, 255, 255, 255, 255, 255]
              \<and> drop 6 b = concat (replicate 16 (take 6 (drop 6 b))))"
    by (simp add: IsMagicPacket_eq bcastAddr_def Repeat_def hwAddrN_def)
next
  have "take 6 (replicate 102 (0 :: byte)) = replicate 6 0"
    by simp
  then show "IsMagicPacket (replicate 102 0) = Some False"
    by (simp add: IsMagicPacket_eq bcastAddr_replicate)
next
  assume "IsMagicPacket b = Some True \<and> 6 \<le> i \<and> i < 102 \<and> v \<noteq> b ! i"
  then show "IsMagicPacket (b[i := v]) = Some False"
    using magic_flip by blast
qed

theorem strict_validation_witness:
  "length packet_aabb = 102
   \<and> IsMagicPacket packet_aabb = Some True
   \<and> (6 :: nat) \<le> 50 \<and> (50 :: nat) < 102 \<and> 0 \<noteq> packet_aabb ! 50
   \<and> IsMagicPacket (packet_aabb[50 := 0]) = Some False
   \<and> IsMagicPacket (replicate 102 0) = Some False"
proof -
  have nz: "0 \<noteq> packet_aabb ! 50"
    by code_simp
  show ?thesis
    using strict_validation [of packet_aabb 50 0] nz IsMagicPacket_aabb length_packet_aabb
    by simp
qed

subsection \<open>Accepted sequences are encoder images\<close>

text \<open>
  C10. Every byte sequence \<open>b\<close> accepted by \<open>IsMagicPacket\<close> is the packet that
  \<open>NewMagicPacket\<close> builds for \<open>HardwareAddr b\<close>; the accepted sequences are exactly
  the packets built for 6-byte hardware addresses.
\<close>

theorem accepted_is_encoded:
  "(IsMagicPacket b = Some True \<longrightarrow> Option.bind (HardwareAddr b) NewMagicPacket = Some b)
   \<and> {p. IsMagicPacket p = Some True} = {p. \<exists>h. length h = 6 \<and> NewMagicPacket h = Some p}"
proof (intro conjI impI)
  assume ok: "IsMagicPacket b = Some True"
  then have "HardwareAddr b = Some (take 6 (drop 6 b))"
    by (simp add: IsMagicPacket_eq HardwareAddr_def slice_def bcastAddrOff_6)
  then show "Option.bind (HardwareAddr b) NewMagicPacket = Some b"
    using IsMagicPacket_decompose(2) [OF ok] by (simp add: NewMagicPacket_eq)
next
  show "{p. IsMagicPacket p = Some True} = {p. \<exists>h. length h = 6 \<and> NewMagicPacket h = Some p}"
  proof (intro set_eqI iffI; clarify)
    fix p
    assume ok: "IsMagicPacket p = Some True"
    have "length (take 6 (drop 6 p)) = 6"
      using IsMagicPacket_decompose(1) [OF ok] by simp
    moreover have "NewMagicPacket (take 6 (drop 6 p)) = Some p"
      using IsMagicPacket_decompose(2) [OF ok] by (simp add: NewMagicPacket_eq)
    ultimately show "\<exists>h. length h = 6 \<and> NewMagicPacket h = Some p"
      by blast
  next
    fix p h
    assume "length h = 6" and "NewMagicPacket h = Some p"
    then show "IsMagicPacket p = Some True"
      using IsMagicPacket_New [of h] by (simp add: NewMagicPacket_eq)
  qed
qed

theorem accepted_is_encoded_witness:
  "IsMagicPacket packet_aabb = Some True
   \<and> Option.bind (HardwareAddr packet_aabb) NewMagicPacket = Some packet_aabb"
  using accepted_is_encoded [of packet_aabb] IsMagicPacket_aabb by simp

section \<open>Properties of the transport\<close>

lemma Wake_dial_failed:
  assumes "dialUDP net (case src of None \<Rightarrow> None
                                  | Some ip \<Rightarrow> Some \<lparr>IP = Some ip, Port = 0, Zone = []\<rparr>)
             \<lparr>IP = Some IPv4bcast, Port = 9, Zone = []\<rparr> = Some e"
  shows "Wake net src hwAddr =
           ([EvDial (case src of None \<Rightarrow> None
                              | Some ip \<Rightarrow> Some \<lparr>IP = Some ip, Port = 0, Zone = []\<rparr>)
               \<lparr>IP = Some IPv4bcast, Port = 9, Zone = []\<rparr>],
            Returned (Some e))"
  using assms by (simp add: Wake_def Let_def)

lemma Wake_dialed:
  assumes "dialUDP net (case src of None \<Rightarrow> None
                                  | Some ip \<Rightarrow> Some \<lparr>IP = Some ip, Port = 0, Zone = []\<rparr>)
             \<lparr>IP = Some IPv4bcast, Port = 9, Zone = []\<rparr> = None"
    and "connWrite net (bcastAddr @ Repeat hwAddr hwAddrN) = (n, err)"
  shows "Wake net src hwAddr =
           (let laddr = (case src of None \<Rightarrow> None
                                   | Some ip \<Rightarrow> Some \<lparr>IP = Some ip, Port = 0, Zone = []\<rparr>);
                raddr = \<lparr>IP = Some IPv4bcast, Port = 9, Zone = []\<rparr>;
                p = bcastAddr @ Repeat hwAddr hwAddrN
            in if err = None \<and> n < int (length p)
               then ([EvDial laddr raddr, EvWrite p], Returned (Some ErrShortWrite))
               else ([EvDial laddr raddr, EvWrite p, EvClose],
                     Returned (case connClose net of Some err1 \<Rightarrow> Some err1 | None \<Rightarrow> err)))"
  using assms by (simp add: Wake_def Let_def NewMagicPacket_eq split: option.split)

lemma length_packet: "length hwAddr = 6 \<Longrightarrow> length (bcastAddr @ Repeat hwAddr hwAddrN) = 102"
  by (simp add: length_Repeat_6 bcastAddr_def)

lemma packet_aabb_eq: "bcastAddr @ Repeat mac_aabb hwAddrN = packet_aabb"
  using NewMagicPacket_aabb by (simp add: NewMagicPacket_eq)

lemma Wake_net_short:
  "Wake net_short None mac_aabb =
     ([EvDial None \<lparr>IP = Some IPv4bcast, Port = 9, Zone = []\<rparr>, EvWrite packet_aabb],
      Returned (Some ErrShortWrite))"
proof -
  have "dialUDP net_short None \<lparr>IP = Some IPv4bcast, Port = 9, Zone = []\<rparr> = None"
    and "connWrite net_short (bcastAddr @ Repeat mac_aabb hwAddrN) = (50, None)"
    by (simp_all add: net_short_def)
  then show ?thesis
    using Wake_dialed [of net_short None mac_aabb 50 None]
    by (simp add: Let_def packet_aabb_eq length_packet_aabb)
qed

lemma Wake_net_write_close_fail:
  "Wake net_write_close_fail None mac_aabb =
     ([EvDial None \<lparr>IP = Some IPv4bcast, Port = 9, Zone = []\<rparr>, EvWrite packet_aabb, EvClose],
      Returned (Some (NetError ''close: bad file descriptor'')))"
proof -
  have "dialUDP net_write_close_fail None \<lparr>IP = Some IPv4bcast, Port = 9, Zone = []\<rparr> = None"
    and "connWrite net_write_close_fail (bcastAddr @ Repeat mac_aabb hwAddrN) =
           (0, Some (NetError ''write: network is unreachable''))"
    and "connClose net_write_close_fail = Some (NetError ''close: bad file descriptor'')"
    by (simp_all add: net_write_close_fail_def)
  then show ?thesis
    using Wake_dialed [of net_write_close_fail None mac_aabb 0
        "Some (NetError ''write: network is unreachable'')"]
    by (simp add: Let_def packet_aabb_eq)
qed

lemma bcastAddr_Repeat_literal:
  "[255, 255, 255, 255, 255, 255] @ concat (replicate 16 hwAddr) = bcastAddr @ Repeat hwAddr hwAddrN"
  by (simp add: bcastAddr_def Repeat_def hwAddrN_def)

subsection \<open>Which error is reported\<close>

text \<open>
  C3 at a write that fails followed by a close that fails: the dial succeeds, the write
  returns the error \<open>write: network is unreachable\<close>, the close returns the error
  \<open>close: bad file descriptor\<close>. \<open>Wake\<close> dials, writes and closes, and returns the
  close's error: the assignment after the close replaces the write's error, which is the
  earlier failure and is not reported.
\<close>

theorem write_error_hidden_by_close:
  "connWrite net_write_close_fail packet_aabb = (0, Some (NetError ''write: network is unreachable''))
   \<and> connClose net_write_close_fail = Some (NetError ''close: bad file descriptor'')
   \<and> Wake net_write_close_fail None mac_aabb
       = ([EvDial None \<lparr>IP = Some IPv4bcast, Port = 9, Zone = []\<rparr>, EvWrite packet_aabb, EvClose],
          Returned (Some (NetError ''close: bad file descriptor'')))
   \<and> snd (Wake net_write_close_fail None mac_aabb)
       \<noteq> Returned (Some (NetError ''write: network is unreachable''))"
  by (simp add: Wake_net_write_close_fail) (simp add: net_write_close_fail_def)

subsection \<open>Release of the connection\<close>

text \<open>
  C4 at a short write: the dial succeeds, the write takes 50 of the 102 bytes and reports
  no error. \<open>Wake\<close> returns \<open>io.ErrShortWrite\<close> after the dial and the write; it does not
  call \<open>Close\<close>.
\<close>

theorem short_write_skips_close:
  "fst (Wake net_short None mac_aabb)
     = [EvDial None \<lparr>IP = Some IPv4bcast, Port = 9, Zone = []\<rparr>, EvWrite packet_aabb]
   \<and> EvClose \<notin> set (fst (Wake net_short None mac_aabb))
   \<and> snd (Wake net_short None mac_aabb) = Returned (Some ErrShortWrite)"
  by (simp add: Wake_net_short)

subsection \<open>Short writes\<close>

text \<open>
  C5. For a 6-byte hardware address and a successful dial: when the write reports no
  error and a count below 102, \<open>Wake\<close> returns \<open>io.ErrShortWrite\<close>; when the write
  reports an error, the count is not looked at, whatever it is: the connection is closed
  and the close's error or else the write's error is returned.
\<close>

theorem short_write_error:
  assumes "length hwAddr = 6"
    and "dialUDP net (case src of None \<Rightarrow> None
                                | Some ip \<Rightarrow> Some \<lparr>IP = Some ip, Port = 0, Zone = []\<rparr>)
           \<lparr>IP = Some IPv4bcast, Port = 9, Zone = []\<rparr> = None"
  shows "(connWrite net ([255, 255, 255, 255, 255, 255] @ concat (replicate 16 hwAddr)) = (n, None)
            \<and> n < 102
          \<longrightarrow> snd (Wake net src hwAddr) = Returned (Some ErrShortWrite))
       \<and> (connWrite net ([255, 255, 255, 255, 255, 255] @ concat (replicate 16 hwAddr)) = (m, Some e)
          \<longrightarrow> snd (Wake net src hwAddr)
                = Returned (Some (case connClose net of Some err1 \<Rightarrow> err1 | None \<Rightarrow> e))
              \<and> EvClose \<in> set (fst (Wake net src hwAddr)))"
proof -
  have short: "snd (Wake net src hwAddr) = Returned (Some ErrShortWrite)"
    if w: "connWrite net (bcastAddr @ Repeat hwAddr hwAddrN) = (n, None)" and n: "n < 102"
  proof -
    have "None = (None :: error option) \<and> n < int (length (bcastAddr @ Repeat hwAddr hwAddrN))"
      using n length_packet [OF assms(1)] by simp
    then have "Wake net src hwAddr =
          ([EvDial (case src of None \<Rightarrow> None
                             | Some ip \<Rightarrow> Some \<lparr>IP = Some ip, Port = 0, Zone = []\<rparr>)
              \<lparr>IP = Some IPv4bcast, Port = 9, Zone = []\<rparr>,
            EvWrite (bcastAddr @ Repeat hwAddr hwAddrN)],
           Returned (Some ErrShortWrite))"
      unfolding Wake_dialed [OF assms(2) w] Let_def by (rule if_P)
    then show ?thesis
      by simp
  qed
  have failed: "snd (Wake net src hwAddr)
          = Returned (Some (case connClose net of Some err1 \<Rightarrow> err1 | None \<Rightarrow> e))
        \<and> EvClose \<in> set (fst (Wake net src hwAddr))"
    if w: "connWrite net (bcastAddr @ Repeat hwAddr hwAddrN) = (m, Some e)"
    using Wake_dialed [OF assms(2) w] by (simp add: Let_def split: option.split)
  show ?thesis
    using short failed unfolding bcastAddr_Repeat_literal by blast
qed

theorem short_write_error_witness:
  "length mac_aabb = 6
   \<and> dialUDP net_short None \<lparr>IP = Some IPv4bcast, Port = 9, Zone = []\<rparr> = None
   \<and> connWrite net_short ([255, 255, 255, 255, 255, 255] @ concat (replicate 16 mac_aabb)) = (50, None)
   \<and> (50 :: int) < 102
   \<and> snd (Wake net_short None mac_aabb) = Returned (Some ErrShortWrite)
   \<and> dialUDP net_write_close_fail None \<lparr>IP = Some IPv4bcast, Port = 9, Zone = []\<rparr> = None
   \<and> connWrite net_write_close_fail ([255, 255, 255, 255, 255, 255] @ concat (replicate 16 mac_aabb))
       = (0, Some (NetError ''write: network is unreachable''))
   \<and> snd (Wake net_write_close_fail None mac_aabb)
       = Returned (Some (NetError ''close: bad file descriptor''))
   \<and> EvClose \<in> set (fst (Wake net_write_close_fail None mac_aabb))"
proof -
  have d1: "dialUDP net_short (case None of None \<Rightarrow> None
              | Some ip \<Rightarrow> Some \<lparr>IP = Some ip, Port = 0, Zone = []\<rparr>)
              \<lparr>IP = Some IPv4bcast, Port = 9, Zone = []\<rparr> = None"
    by (simp add: net_short_def)
  have d2: "dialUDP net_write_close_fail (case None of None \<Rightarrow> None
              | Some ip \<Rightarrow> Some \<lparr>IP = Some ip, Port = 0, Zone = []\<rparr>)
              \<lparr>IP = Some IPv4bcast, Port = 9, Zone = []\<rparr> = None"
    by (simp add: net_write_close_fail_def)
  show ?thesis
    using short_write_error [OF length_mac_aabb d1, of 50 0 "NetError []"]
      short_write_error [OF length_mac_aabb d2, of 0 0 "NetError ''write: network is unreachable''"]
      length_mac_aabb
    by (simp add: net_short_def net_write_close_fail_def)
qed

subsection \<open>Malformed address texts\<close>

text \<open>
  C8. When the MAC address text fails to parse, \<open>WakeString\<close> returns the parser's error
  unchanged; when the MAC address parses and the source IP text is not empty and fails to
  parse, it returns the error with the message \<open>invalid ip: \<close> followed by that text.
  In both cases \<open>Wake\<close> is not called and the network is not touched (the trace is
  empty), and the message contains the offending text: for the source IP by construction,
  for the MAC address because the error of \<open>net.ParseMAC\<close> names its input, which is the
  hypothesis on the parameter \<open>ParseMAC\<close>.
\<close>

theorem WakeString_malformed:
  assumes "\<And>err. ParseMAC macAddr = Inl err \<Longrightarrow> sublist macAddr (Error err)"
  shows "(ParseMAC macAddr = Inl e \<longrightarrow>
            WakeString ParseMAC ParseIP net srcIP macAddr = ([], Returned (Some e))
            \<and> sublist macAddr (Error e))
       \<and> (ParseMAC macAddr = Inr hwAddr \<and> srcIP \<noteq> [] \<and> ParseIP srcIP = None \<longrightarrow>
            WakeString ParseMAC ParseIP net srcIP macAddr
              = ([], Returned (Some (Errorf (''invalid ip: '' @ srcIP))))
            \<and> sublist srcIP (Error (Errorf (''invalid ip: '' @ srcIP))))"
proof -
  have mac: "ParseMAC macAddr = Inl e \<longrightarrow>
            WakeString ParseMAC ParseIP net srcIP macAddr = ([], Returned (Some e))
            \<and> sublist macAddr (Error e)"
    using assms by (simp add: WakeString_def)
  have ip: "ParseMAC macAddr = Inr hwAddr \<and> srcIP \<noteq> [] \<and> ParseIP srcIP = None \<longrightarrow>
            WakeString ParseMAC ParseIP net srcIP macAddr
              = ([], Returned (Some (Errorf (''invalid ip: '' @ srcIP))))"
    by (simp add: WakeString_def)
  have msg: "sublist srcIP (Error (Errorf (''invalid ip: '' @ srcIP)))"
    by (simp only: Error.simps sublist_append_leftI)
  show ?thesis
    using mac ip msg by blast
qed

theorem WakeString_malformed_witness:
  "parse_mac_demo ''aa:bb:cc'' = Inl (NetError ''address aa:bb:cc: invalid MAC address'')
   \<and> WakeString parse_mac_demo parse_ip_demo net_ok ''10.0.0.1'' ''aa:bb:cc''
       = ([], Returned (Some (NetError ''address aa:bb:cc: invalid MAC address'')))
   \<and> sublist ''aa:bb:cc'' (Error (NetError ''address aa:bb:cc: invalid MAC address''))
   \<and> parse_mac_demo ''aa:bb:cc:dd:ee:ff'' = Inr mac_aabb
   \<and> ''not-an-ip'' \<noteq> [] \<and> parse_ip_demo ''not-an-ip'' = None
   \<and> WakeString parse_mac_demo parse_ip_demo net_ok ''not-an-ip'' ''aa:bb:cc:dd:ee:ff''
       = ([], Returned (Some (Errorf ''invalid ip: not-an-ip'')))
   \<and> sublist ''not-an-ip'' (Error (Errorf ''invalid ip: not-an-ip''))"
proof -
  have bad: "parse_mac_demo ''aa:bb:cc'' = Inl (NetError ''address aa:bb:cc: invalid MAC address'')"
    by (simp add: parse_mac_demo_def)
  have good: "parse_mac_demo ''aa:bb:cc:dd:ee:ff'' = Inr mac_aabb"
    by (simp add: parse_mac_demo_def)
  have ip: "parse_ip_demo ''not-an-ip'' = None"
    by (simp add: parse_ip_demo_def)
  have names: "sublist ''aa:bb:cc'' (Error err)" if "parse_mac_demo ''aa:bb:cc'' = Inl err" for err
  proof -
    from that bad have "err = NetError (''address '' @ ''aa:bb:cc'' @ '': invalid MAC address'')"
      by simp
    then show ?thesis
      by (simp only: Error.simps sublist_appendI)
  qed
  have vacuous: "sublist ''aa:bb:cc:dd:ee:ff'' (Error err)"
    if "parse_mac_demo ''aa:bb:cc:dd:ee:ff'' = Inl err" for err
    using that good by simp
  show ?thesis
    using WakeString_malformed [of parse_mac_demo "''aa:bb:cc''"
        "NetError ''address aa:bb:cc: invalid MAC address''" parse_ip_demo net_ok "''10.0.0.1''",
        OF names]
      WakeString_malformed [of parse_mac_demo "''aa:bb:cc:dd:ee:ff''" _ parse_ip_demo net_ok
        "''not-an-ip''" mac_aabb, OF vacuous]
      bad good ip
    by simp
qed

subsection \<open>Addressing\<close>

text \<open>
  C9. Every call of \<open>Wake\<close> dials exactly once, to the remote address 255.255.255.255
  (\<open>net.IPv4bcast\<close>), UDP port 9, from the local address \<open>nil\<close> when no source is given
  and from the given source IP (port 0, so the platform picks the port) otherwise. When
  the dial succeeds exactly one datagram is written, the magic packet of the hardware
  address, and nothing else is ever written; for a 6-byte hardware address that packet
  has 102 bytes.
\<close>

theorem Wake_addressing:
  "(let laddr = (case src of None \<Rightarrow> None
                          | Some ip \<Rightarrow> Some \<lparr>IP = Some ip, Port = 0, Zone = []\<rparr>);
        raddr = \<lparr>IP = Some (IPv4 255 255 255 255), Port = 9, Zone = []\<rparr>;
        p = [255, 255, 255, 255, 255, 255] @ concat (replicate 16 hwAddr)
    in (fst (Wake net src hwAddr) = [EvDial laddr raddr]
        \<or> fst (Wake net src hwAddr) = [EvDial laddr raddr, EvWrite p]
        \<or> fst (Wake net src hwAddr) = [EvDial laddr raddr, EvWrite p, EvClose])
     \<and> (dialUDP net laddr raddr = None \<longrightarrow> fst (Wake net src hwAddr) \<noteq> [EvDial laddr raddr])
     \<and> (dialUDP net laddr raddr \<noteq> None \<longrightarrow> fst (Wake net src hwAddr) = [EvDial laddr raddr])
     \<and> (length hwAddr = 6 \<longrightarrow> length p = 102))"
proof -
  let ?laddr = "case src of None \<Rightarrow> None
                          | Some ip \<Rightarrow> Some \<lparr>IP = Some ip, Port = 0, Zone = []\<rparr>"
  let ?raddr = "\<lparr>IP = Some IPv4bcast, Port = 9, Zone = []\<rparr>"
  let ?p = "bcastAddr @ Repeat hwAddr hwAddrN"
  have shape: "(fst (Wake net src hwAddr) = [EvDial ?laddr ?raddr]
        \<or> fst (Wake net src hwAddr) = [EvDial ?laddr ?raddr, EvWrite ?p]
        \<or> fst (Wake net src hwAddr) = [EvDial ?laddr ?raddr, EvWrite ?p, EvClose])
     \<and> (dialUDP net ?laddr ?raddr = None \<longrightarrow> fst (Wake net src hwAddr) \<noteq> [EvDial ?laddr ?raddr])
     \<and> (dialUDP net ?laddr ?raddr \<noteq> None \<longrightarrow> fst (Wake net src hwAddr) = [EvDial ?laddr ?raddr])"
  proof (cases "dialUDP net ?laddr ?raddr")
    case None
    obtain n err where w: "connWrite net ?p = (n, err)"
      by (cases "connWrite net ?p")
    show ?thesis
      using Wake_dialed [OF None w] None by (simp add: Let_def)
  next
    case (Some e)
    show ?thesis
      using Wake_dial_failed [OF Some] Some by simp
  qed
  have len: "length hwAddr = 6 \<longrightarrow> length ?p = 102"
    using length_packet by blast
  show ?thesis
    unfolding Let_def bcastAddr_Repeat_literal IPv4bcast_def [symmetric]
    using shape len by blast
qed

theorem Wake_addressing_witness:
  "dialUDP net_ok (Some \<lparr>IP = Some (IPv4 10 0 0 1), Port = 0, Zone = []\<rparr>)
     \<lparr>IP = Some (IPv4 255 255 255 255), Port = 9, Zone = []\<rparr> = None
   \<and> length mac_aabb = 6
   \<and> fst (Wake net_ok (Some (IPv4 10 0 0 1)) mac_aabb)
       = [EvDial (Some \<lparr>IP = Some (IPv4 10 0 0 1), Port = 0, Zone = []\<rparr>)
            \<lparr>IP = Some (IPv4 255 255 255 255), Port = 9, Zone = []\<rparr>,
          EvWrite packet_aabb, EvClose]
   \<and> length packet_aabb = 102"
proof -
  have d: "dialUDP net_ok (Some \<lparr>IP = Some (IPv4 10 0 0 1), Port = 0, Zone = []\<rparr>)
     \<lparr>IP = Some IPv4bcast, Port = 9, Zone = []\<rparr> = None"
    by (simp add: net_ok_def)
  have w: "connWrite net_ok (bcastAddr @ Repeat mac_aabb hwAddrN) = (102, None)"
    by (simp add: net_ok_def packet_aabb_eq length_packet_aabb)
  have "fst (Wake net_ok (Some (IPv4 10 0 0 1)) mac_aabb)
       = [EvDial (Some \<lparr>IP = Some (IPv4 10 0 0 1), Port = 0, Zone = []\<rparr>)
            \<lparr>IP = Some IPv4bcast, Port = 9, Zone = []\<rparr>,
          EvWrite packet_aabb, EvClose]"
    using Wake_dialed [of net_ok "Some (IPv4 10 0 0 1)" mac_aabb 102 None] d w
    by (simp add: Let_def packet_aabb_eq length_packet_aabb)
  then show ?thesis
    using Wake_addressing [of "Some (IPv4 10 0 0 1)" mac_aabb net_ok] d
      length_mac_aabb length_packet_aabb
    by (simp add: IPv4bcast_def)
qed

end
